theory Spec2Isabelle
  imports Complex_Main "HOL-Library.Sublist" "HOL-Library.Multiset" "HOL-Library.AList"
begin

section \<open>Python values\<close>

text \<open>
  A Python \<open>str\<close> is a sequence of Unicode code points, and \<open>len\<close> counts code points.
  The report of \<open>flight_monitor.py\<close> contains code points far beyond one byte, so a string
  is a list of code points here. \<open>lit\<close> embeds an ASCII literal.
\<close>

type_synonym pystr = "nat list"

definition lit :: "string \<Rightarrow> pystr" where
  "lit s = map of_char s"

text \<open>The exceptions that the modelled code can raise.\<close>

datatype error =
    AttributeError | TypeError | ValueError | KeyError | IndexError
  | ZeroDivisionError | OverflowError

text \<open>
  A Python \<open>float\<close>: a finite value, an infinity or a NaN. Finite values are kept as
  exact rationals: the rounding of a quotient to the nearest double is not modelled, and
  an integer of any size converts to a float.
\<close>

datatype pyfloat = Finite rat | PosInf | NegInf | NaN

text \<open>
  The decoded JSON of a search response, as the Amadeus client hands it over: objects
  (\<open>dict\<close>), arrays (\<open>list\<close>), strings and \<open>None\<close>. The schema of the provider has strings
  at every scalar the code reads (also the price), so numbers and booleans are left out.
  An object is an association list that is read with \<open>map_of\<close>.
\<close>

datatype json = JNull | JStr pystr | JList "json list" | JDict "(pystr \<times> json) list"

text \<open>
  What the interpreter and its libraries provide and the repository does not define:
  \<^item> \<open>float_of_str\<close>: \<open>float(s)\<close> on a string, \<open>None\<close> when it raises \<open>ValueError\<close>;
  \<^item> \<open>unicode_space\<close>, \<open>unicode_decimal\<close>: the whitespace and decimal-digit properties of
    the code points from 127 on, which \<open>int(s)\<close> consults;
  \<^item> \<open>strftime_date\<close>: \<open>datetime.strptime(s, '%Y-%m-%d').strftime('%b %d, %a')\<close>, \<open>None\<close>
    when \<open>strptime\<close> raises \<open>ValueError\<close>;
  \<^item> \<open>repr_of\<close>: \<open>str(v)\<close> for a list or a dict.
\<close>

record pylib =
  float_of_str :: "pystr \<Rightarrow> pyfloat option"
  unicode_space :: "nat \<Rightarrow> bool"
  unicode_decimal :: "nat \<Rightarrow> nat option"
  strftime_date :: "pystr \<Rightarrow> pystr option"
  repr_of :: "json \<Rightarrow> pystr"

text \<open>Sequencing of computations that may raise: the first exception is the result.\<close>

definition bind :: "error + 'a \<Rightarrow> ('a \<Rightarrow> error + 'b) \<Rightarrow> error + 'b" where
  "bind m f = (case m of Inl e \<Rightarrow> Inl e | Inr x \<Rightarrow> f x)"

subsection \<open>Built-in operations on strings\<close>

text \<open>\<open>s.split(sep)\<close> for a separator of one character.\<close>

fun py_split :: "nat \<Rightarrow> pystr \<Rightarrow> pystr list" where
  "py_split sep [] = [[]]"
| "py_split sep (c # cs) =
     (if c = sep then [] # py_split sep cs
      else (case py_split sep cs of
              [] \<Rightarrow> [[c]]
            | p # ps \<Rightarrow> (c # p) # ps))"

text \<open>
  \<open>s.replace(old, new)\<close>: the occurrences of \<open>old\<close> are found from the left and do not
  overlap. An empty \<open>old\<close> matches before every character and at the end.
\<close>

function replace_scan :: "pystr \<Rightarrow> pystr \<Rightarrow> pystr \<Rightarrow> pystr" where
  "replace_scan old new [] = []"
| "replace_scan old new (c # cs) =
     (if old \<noteq> [] \<and> prefix old (c # cs)
      then new @ replace_scan old new (drop (length old) (c # cs))
      else c # replace_scan old new cs)"
  by pat_completeness auto
termination
  by (relation "measure (\<lambda>(old, new, s). length s)") auto

definition py_replace :: "pystr \<Rightarrow> pystr \<Rightarrow> pystr \<Rightarrow> pystr" where
  "py_replace old new s =
     (if old = [] then new @ concat (map (\<lambda>c. c # new) s)
      else replace_scan old new s)"

text \<open>\<open>str(n)\<close> and the f-string rendering of an integer.\<close>

fun dec_nat :: "nat \<Rightarrow> pystr" where
  "dec_nat n = (if n < 10 then [48 + n] else dec_nat (n div 10) @ [48 + n mod 10])"

declare dec_nat.simps [simp del]

definition dec_int :: "int \<Rightarrow> pystr" where
  "dec_int i = (if i < 0 then 45 # dec_nat (nat (- i)) else dec_nat (nat i))"

text \<open>
  \<open>int(s)\<close> in base ten. CPython first maps the string to ASCII (a code point below 127
  is kept, a Unicode space becomes a blank, a Unicode decimal digit its ASCII digit,
  anything else a question mark) and then reads: blanks, an optional sign, digits with
  single underscores between them, blanks. The interpreter's optional limit on the number
  of digits of a conversion is not modelled.
\<close>

definition to_ascii :: "pylib \<Rightarrow> nat \<Rightarrow> nat" where
  "to_ascii lib c =
     (if c < 127 then c
      else if unicode_space lib c then 32
      else (case unicode_decimal lib c of Some d \<Rightarrow> 48 + d | None \<Rightarrow> 63))"

definition is_space :: "nat \<Rightarrow> bool" where
  "is_space c \<longleftrightarrow> c = 32 \<or> (9 \<le> c \<and> c \<le> 13)"

definition is_digit :: "nat \<Rightarrow> bool" where
  "is_digit c \<longleftrightarrow> 48 \<le> c \<and> c \<le> 57"

definition strip :: "pystr \<Rightarrow> pystr" where
  "strip s = rev (dropWhile is_space (rev (dropWhile is_space s)))"

fun digits_value :: "nat \<Rightarrow> pystr \<Rightarrow> nat option" where
  "digits_value acc [] = Some acc"
| "digits_value acc [c] = (if is_digit c then Some (10 * acc + (c - 48)) else None)"
| "digits_value acc (c # d # cs) =
     (if is_digit c then digits_value (10 * acc + (c - 48)) (d # cs)
      else if c = 95 \<and> is_digit d then digits_value acc (d # cs)
      else None)"

definition unsigned_value :: "pystr \<Rightarrow> nat option" where
  "unsigned_value s =
     (case s of
        [] \<Rightarrow> None
      | c # cs \<Rightarrow> if is_digit c then digits_value 0 (c # cs) else None)"

definition py_int :: "pylib \<Rightarrow> pystr \<Rightarrow> error + int" where
  "py_int lib s =
     (case strip (map (to_ascii lib) s) of
        [] \<Rightarrow> Inl ValueError
      | c # cs \<Rightarrow>
          (if c = 45 then
             (case unsigned_value cs of None \<Rightarrow> Inl ValueError | Some n \<Rightarrow> Inr (- int n))
           else if c = 43 then
             (case unsigned_value cs of None \<Rightarrow> Inl ValueError | Some n \<Rightarrow> Inr (int n))
           else
             (case unsigned_value (c # cs) of None \<Rightarrow> Inl ValueError | Some n \<Rightarrow> Inr (int n))))"

section \<open>Airline Code Resolver\<close>

definition airlines :: "(pystr \<times> pystr) list" where
  "airlines =
     [(lit ''6E'', lit ''IndiGo''),
      (lit ''AI'', lit ''Air India''),
      (lit ''SG'', lit ''SpiceJet''),
      (lit ''UK'', lit ''Vistara''),
      (lit ''QP'', lit ''Akasa Air''),
      (lit ''IX'', lit ''Air India Express''),
      (lit ''9I'', lit ''Alliance Air''),
      (lit ''I5'', lit ''AirAsia India''),
      (lit ''G8'', lit ''Go First'')]"

text \<open>
  \<open>airlines.get(carrier_code, carrier_code)\<close>: the key is hashed first, and a list or a
  dict is unhashable. A string is looked up; \<open>None\<close> is no key of the table.
\<close>

definition get_airline_name :: "json \<Rightarrow> error + json" where
  "get_airline_name carrier_code =
     (case carrier_code of
        JStr s \<Rightarrow> Inr (case map_of airlines s of Some name \<Rightarrow> JStr name | None \<Rightarrow> JStr s)
      | JNull \<Rightarrow> Inr JNull
      | JList _ \<Rightarrow> Inl TypeError
      | JDict _ \<Rightarrow> Inl TypeError)"

section \<open>Duration Parser\<close>

text \<open>
  The body of the \<open>try\<close> block of \<open>parse_duration\<close>. Only a string has \<open>replace\<close>; the
  hours are read from the text before the first \<open>H\<close>, the minutes from what follows it
  (\<open>parts[1]\<close>) with every \<open>M\<close> removed.
\<close>

definition parse_duration_try :: "pylib \<Rightarrow> json \<Rightarrow> error + pystr" where
  "parse_duration_try lib duration_str =
     (case duration_str of
        JStr s0 \<Rightarrow>
          (let s1 = py_replace (lit ''PT'') [] s0 in
           bind (if 72 \<in> set s1
                 then (case py_split 72 s1 of
                         p0 # p1 # _ \<Rightarrow> bind (py_int lib p0) (\<lambda>hours. Inr (hours, p1))
                       | _ \<Rightarrow> Inl IndexError)
                 else Inr (0, s1))
             (\<lambda>(hours, s2).
                bind (if 77 \<in> set s2 then py_int lib (py_replace (lit ''M'') [] s2) else Inr 0)
                  (\<lambda>minutes. Inr (dec_int hours @ lit ''h '' @ dec_int minutes @ lit ''m''))))
      | _ \<Rightarrow> Inl AttributeError)"

text \<open>The bare \<open>except\<close> turns every exception into the text \<open>N/A\<close>.\<close>

definition parse_duration :: "pylib \<Rightarrow> json \<Rightarrow> pystr" where
  "parse_duration lib duration_str =
     (case parse_duration_try lib duration_str of
        Inr text \<Rightarrow> text
      | Inl _ \<Rightarrow> lit ''N/A'')"

section \<open>Configuration and deals\<close>

text \<open>The class \<open>Config\<close>, as far as the modelled functions read it.\<close>

record config =
  FROM_CITY :: pystr
  FROM_CODE :: pystr
  TO_CITY :: pystr
  TO_CODE :: pystr
  DATE_RANGE_START :: pystr
  DATE_RANGE_END :: pystr
  PASSENGERS :: int
  MAX_PRICE :: int

text \<open>
  The dict that \<open>parse_amadeus_response\<close> builds for a qualifying offer. The airline, the
  carrier code and the cabin are stored as they come out of the response.
\<close>

record deal =
  date :: pystr
  price :: int
  total_price :: int
  airline :: json
  carrier_code :: json
  duration :: pystr
  stops :: int
  departure_time :: pystr
  cabin_class :: json
  source :: pystr

section \<open>Offer Normalizer\<close>

subsection \<open>Built-in operations on response values\<close>

text \<open>\<open>d.get(key, default)\<close>: only a dict has the method.\<close>

definition dict_get :: "json \<Rightarrow> pystr \<Rightarrow> json \<Rightarrow> error + json" where
  "dict_get d key dflt =
     (case d of
        JDict kvs \<Rightarrow> Inr (case map_of kvs key of Some v \<Rightarrow> v | None \<Rightarrow> dflt)
      | _ \<Rightarrow> Inl AttributeError)"

text \<open>The truth value that \<open>not x\<close> tests.\<close>

definition truthy :: "json \<Rightarrow> bool" where
  "truthy v = (case v of JNull \<Rightarrow> False | JStr s \<Rightarrow> s \<noteq> [] | JList xs \<Rightarrow> xs \<noteq> [] | JDict kvs \<Rightarrow> kvs \<noteq> [])"

text \<open>
  \<open>x[i]\<close> with an integer index; a negative index counts from the end. A dict of the
  response has strings as keys, so an integer is never one of them.
\<close>

definition py_index :: "'a list \<Rightarrow> int \<Rightarrow> error + 'a" where
  "py_index xs i =
     (if 0 \<le> i \<and> nat i < length xs then Inr (xs ! nat i)
      else if i < 0 \<and> nat (- i) \<le> length xs then Inr (xs ! (length xs - nat (- i)))
      else Inl IndexError)"

definition subscript :: "json \<Rightarrow> int \<Rightarrow> error + json" where
  "subscript v i =
     (case v of
        JList xs \<Rightarrow> py_index xs i
      | JStr s \<Rightarrow> bind (py_index s i) (\<lambda>c. Inr (JStr [c]))
      | JDict _ \<Rightarrow> Inl KeyError
      | JNull \<Rightarrow> Inl TypeError)"

text \<open>\<open>x[:16]\<close>: a string and a list can be sliced.\<close>

definition slice16 :: "json \<Rightarrow> error + json" where
  "slice16 v =
     (case v of
        JStr s \<Rightarrow> Inr (JStr (take 16 s))
      | JList xs \<Rightarrow> Inr (JList (take 16 xs))
      | _ \<Rightarrow> Inl TypeError)"

text \<open>\<open>'T' in x\<close>.\<close>

definition contains_T :: "json \<Rightarrow> error + bool" where
  "contains_T v =
     (case v of
        JStr s \<Rightarrow> Inr (84 \<in> set s)
      | JList xs \<Rightarrow> Inr (JStr [84] \<in> set xs)
      | JDict kvs \<Rightarrow> Inr ([84] \<in> fst ` set kvs)
      | JNull \<Rightarrow> Inl TypeError)"

text \<open>\<open>x.split('T')[1]\<close>: only a string has \<open>split\<close>.\<close>

definition after_T :: "json \<Rightarrow> error + pystr" where
  "after_T v =
     (case v of
        JStr s \<Rightarrow> py_index (py_split 84 s) 1
      | _ \<Rightarrow> Inl AttributeError)"

definition py_len :: "json \<Rightarrow> error + int" where
  "py_len v =
     (case v of
        JStr s \<Rightarrow> Inr (int (length s))
      | JList xs \<Rightarrow> Inr (int (length xs))
      | JDict kvs \<Rightarrow> Inr (int (length (remdups (map fst kvs))))
      | JNull \<Rightarrow> Inl TypeError)"

text \<open>\<open>float(x)\<close>: a string is parsed, anything else of a response is a type error.\<close>

definition py_float :: "pylib \<Rightarrow> json \<Rightarrow> error + pyfloat" where
  "py_float lib v =
     (case v of
        JStr s \<Rightarrow> (case float_of_str lib s of Some x \<Rightarrow> Inr x | None \<Rightarrow> Inl ValueError)
      | _ \<Rightarrow> Inl TypeError)"

text \<open>\<open>x / n\<close> for a float and an integer.\<close>

definition float_div :: "pyfloat \<Rightarrow> int \<Rightarrow> error + pyfloat" where
  "float_div x n =
     (if n = 0 then Inl ZeroDivisionError
      else Inr (case x of
                  Finite r \<Rightarrow> Finite (r / of_int n)
                | PosInf \<Rightarrow> (if 0 < n then PosInf else NegInf)
                | NegInf \<Rightarrow> (if 0 < n then NegInf else PosInf)
                | NaN \<Rightarrow> NaN))"

text \<open>\<open>x <= m\<close> for a float and an integer: every comparison with a NaN is false.\<close>

definition float_le_int :: "pyfloat \<Rightarrow> int \<Rightarrow> bool" where
  "float_le_int x m =
     (case x of Finite r \<Rightarrow> r \<le> of_int m | NegInf \<Rightarrow> True | PosInf \<Rightarrow> False | NaN \<Rightarrow> False)"

text \<open>\<open>int(x)\<close> for a float rounds towards zero.\<close>

definition trunc :: "rat \<Rightarrow> int" where
  "trunc r = (if 0 \<le> r then \<lfloor>r\<rfloor> else \<lceil>r\<rceil>)"

definition int_of_float :: "pyfloat \<Rightarrow> error + int" where
  "int_of_float x =
     (case x of
        Finite r \<Rightarrow> Inr (trunc r)
      | NaN \<Rightarrow> Inl ValueError
      | _ \<Rightarrow> Inl OverflowError)"

subsection \<open>The loop of \<open>parse_amadeus_response\<close>\<close>

text \<open>
  The body of the \<open>for\<close> loop for one offer, statement by statement. The result is an
  exception, or \<open>None\<close> when the offer adds no deal (over the budget, or a \<open>continue\<close>),
  or the deal that is appended. Logging is not modelled.
\<close>

definition normalize_offer :: "config \<Rightarrow> pylib \<Rightarrow> pystr \<Rightarrow> json \<Rightarrow> error + deal option" where
  "normalize_offer cfg lib date_arg offer =
     bind (dict_get offer (lit ''price'') (JDict [])) (\<lambda>price_obj.
     bind (dict_get price_obj (lit ''total'') (JStr (lit ''0''))) (\<lambda>total_price_str.
     bind (py_float lib total_price_str) (\<lambda>total_price.
     bind (float_div total_price (PASSENGERS cfg)) (\<lambda>price_per_person.
     if float_le_int price_per_person (MAX_PRICE cfg) then
       bind (dict_get offer (lit ''itineraries'') (JList [])) (\<lambda>itineraries.
       if \<not> truthy itineraries then Inr None else
       bind (subscript itineraries 0) (\<lambda>first_itinerary.
       bind (dict_get first_itinerary (lit ''segments'') (JList [])) (\<lambda>segments.
       if \<not> truthy segments then Inr None else
       bind (subscript segments 0) (\<lambda>first_segment.
       bind (dict_get first_segment (lit ''carrierCode'') (JStr (lit ''XX''))) (\<lambda>carrier.
       bind (get_airline_name carrier) (\<lambda>airline_name.
       bind (dict_get first_segment (lit ''departure'') (JDict [])) (\<lambda>departure.
       bind (dict_get first_itinerary (lit ''segments'') (JList [JDict []])) (\<lambda>segments_again.
       bind (subscript segments_again (- 1)) (\<lambda>last_segment.
       bind (dict_get last_segment (lit ''arrival'') (JDict [])) (\<lambda>arrival_time.
       bind (dict_get departure (lit ''at'') (JStr [])) (\<lambda>at_text.
       bind (slice16 at_text) (\<lambda>departure_time_full.
       bind (contains_T departure_time_full) (\<lambda>has_T.
       bind (if has_T then after_T departure_time_full else Inr (lit ''N/A'')) (\<lambda>departure_hour.
       bind (dict_get first_itinerary (lit ''duration'') (JStr (lit ''PT0H0M''))) (\<lambda>duration_str.
       bind (py_len segments) (\<lambda>n_segments.
       bind (subscript segments 0) (\<lambda>segment0.
       bind (dict_get segment0 (lit ''cabin'') (JStr (lit ''ECONOMY''))) (\<lambda>booking_class.
       bind (int_of_float price_per_person) (\<lambda>price_int.
       bind (int_of_float total_price) (\<lambda>total_int.
       Inr (Some \<lparr>date = date_arg,
                  price = price_int,
                  total_price = total_int,
                  airline = airline_name,
                  carrier_code = carrier,
                  duration = parse_duration lib duration_str,
                  stops = n_segments - 1,
                  departure_time = departure_hour,
                  cabin_class = booking_class,
                  source = lit ''Amadeus''\<rparr>)))))))))))))))))))))
     else Inr None))))"

text \<open>
  The \<open>for\<close> loop with the list \<open>deals\<close> it appends to. The loop stands inside the \<open>try\<close>
  block: an exception leaves it, and the list keeps what was appended before.
\<close>

fun offers_loop :: "config \<Rightarrow> pylib \<Rightarrow> pystr \<Rightarrow> json list \<Rightarrow> deal list \<Rightarrow> deal list \<times> error option" where
  "offers_loop cfg lib date_arg [] deals = (deals, None)"
| "offers_loop cfg lib date_arg (offer # rest) deals =
     (case normalize_offer cfg lib date_arg offer of
        Inl e \<Rightarrow> (deals, Some e)
      | Inr None \<Rightarrow> offers_loop cfg lib date_arg rest deals
      | Inr (Some d) \<Rightarrow> offers_loop cfg lib date_arg rest (deals @ [d]))"

text \<open>
  What \<open>for offer in data\<close> iterates over: the elements of a list, the characters of a
  string, the keys of a dict; \<open>None\<close> is not iterable.
\<close>

definition py_iter :: "json \<Rightarrow> error + json list" where
  "py_iter v =
     (case v of
        JList xs \<Rightarrow> Inr xs
      | JStr s \<Rightarrow> Inr (map (\<lambda>c. JStr [c]) s)
      | JDict kvs \<Rightarrow> Inr (map JStr (remdups (map fst kvs)))
      | JNull \<Rightarrow> Inl TypeError)"

text \<open>
  \<open>parse_amadeus_response\<close>: the \<open>try\<close> block runs the loop; the handler of
  \<open>except Exception\<close> logs, and \<open>return deals\<close> follows in either case. The result is
  \<open>Inr\<close> of the returned list; \<open>Inl\<close> would be an exception that leaves the function.
\<close>

definition parse_amadeus_response :: "config \<Rightarrow> pylib \<Rightarrow> json \<Rightarrow> pystr \<Rightarrow> error + deal list" where
  "parse_amadeus_response cfg lib data date_arg =
     (let (deals, raised) =
            (case py_iter data of
               Inl e \<Rightarrow> ([], Some e)
             | Inr offers \<Rightarrow> offers_loop cfg lib date_arg offers [])
      in case raised of
           Some e \<Rightarrow> Inr deals
         | None \<Rightarrow> Inr deals)"

section \<open>Ranking and Reporting\<close>

subsection \<open>Rendering of values\<close>

text \<open>The f-string rendering of a stored response value: \<open>str(v)\<close>.\<close>

definition py_str :: "pylib \<Rightarrow> json \<Rightarrow> pystr" where
  "py_str lib v = (case v of JStr s \<Rightarrow> s | JNull \<Rightarrow> lit ''None'' | _ \<Rightarrow> repr_of lib v)"

text \<open>The format \<open>{n:,}\<close>: the decimal digits in groups of three.\<close>

definition three_digits :: "nat \<Rightarrow> pystr" where
  "three_digits k = [48 + k div 100, 48 + (k div 10) mod 10, 48 + k mod 10]"

fun commas_nat :: "nat \<Rightarrow> pystr" where
  "commas_nat n =
     (if n < 1000 then dec_nat n
      else commas_nat (n div 1000) @ 44 # three_digits (n mod 1000))"

declare commas_nat.simps [simp del]

definition dec_commas :: "int \<Rightarrow> pystr" where
  "dec_commas i = (if i < 0 then 45 # commas_nat (nat (- i)) else commas_nat (nat i))"

definition rule_line :: pystr where
  "rule_line = replicate 20 0x2501"

subsection \<open>The parts of the message\<close>

text \<open>
  \<open>format_results_message\<close> builds its text by appending to \<open>message\<close>. The definitions
  below are the consecutive runs of these appends, in the order of the source.
\<close>

definition no_deals_message :: "config \<Rightarrow> pystr" where
  "no_deals_message cfg =
     [0x274C] @ lit '' *No Deals Found*\<newline>\<newline>''
     @ [0x1F6EB] @ lit '' '' @ FROM_CITY cfg @ lit '' '' @ [0x2192] @ lit '' '' @ TO_CITY cfg
       @ lit ''\<newline>''
     @ [0x1F4C5] @ lit '' '' @ DATE_RANGE_START cfg @ lit '' to '' @ DATE_RANGE_END cfg
       @ lit ''\<newline>''
     @ [0x1F465] @ lit '' '' @ dec_int (PASSENGERS cfg) @ lit '' passengers\<newline>''
     @ [0x1F4B0] @ lit '' Target: '' @ [0x2264] @ lit '' '' @ [0x20B9]
       @ dec_int (MAX_PRICE cfg) @ lit ''/person\<newline>\<newline>''
     @ [0x1F4A1] @ lit '' *Suggestions:*\<newline>''
     @ [0x2022] @ lit '' Increase your budget in .env file\<newline>''
     @ [0x2022] @ lit '' Try different dates\<newline>''
     @ [0x2022] @ lit '' Check again later (prices change!)\<newline>\<newline>''
     @ lit ''_Using Amadeus API - Real prices from 400+ airlines_''"

definition report_header :: "config \<Rightarrow> deal list \<Rightarrow> pystr" where
  "report_header cfg deals =
     [0x2708, 0xFE0F] @ lit '' *FLIGHT DEALS FOUND!*\<newline>''
     @ rule_line @ lit ''\<newline>\<newline>''
     @ [0x1F6EB] @ lit '' *'' @ FROM_CITY cfg @ lit '' ('' @ FROM_CODE cfg @ lit '') ''
       @ [0x2192] @ lit '' '' @ TO_CITY cfg @ lit '' ('' @ TO_CODE cfg @ lit '')*\<newline>''
     @ [0x1F4C5] @ lit '' '' @ DATE_RANGE_START cfg @ lit '' to '' @ DATE_RANGE_END cfg
       @ lit ''\<newline>''
     @ [0x1F465] @ lit '' '' @ dec_int (PASSENGERS cfg) @ lit '' passengers\<newline>''
     @ [0x1F3AF] @ lit '' *'' @ dec_nat (length deals) @ lit '' deals* under '' @ [0x20B9]
       @ dec_int (MAX_PRICE cfg) @ lit ''\<newline>\<newline>''
     @ rule_line @ lit ''\<newline>\<newline>''
     @ lit ''*'' @ [0x1F3C6] @ lit '' TOP 15 BEST DEALS:*\<newline>\<newline>''"

text \<open>What one round of the loop over \<open>deals[:15]\<close> appends for the deal at rank \<open>i\<close>.\<close>

definition deal_entry :: "config \<Rightarrow> pylib \<Rightarrow> nat \<Rightarrow> pystr \<Rightarrow> deal \<Rightarrow> pystr" where
  "deal_entry cfg lib i formatted_date d =
     lit ''*'' @ dec_nat i @ lit ''. '' @ [0x20B9] @ dec_int (price d) @ lit ''/person* (''
       @ formatted_date @ lit '')\<newline>''
     @ lit ''   '' @ [0x1F4B0] @ lit '' Total: '' @ [0x20B9] @ dec_commas (total_price d)
       @ lit '' for '' @ dec_int (PASSENGERS cfg) @ lit '' pax\<newline>''
     @ lit ''   '' @ [0x2708, 0xFE0F] @ lit '' '' @ py_str lib (airline d) @ lit '' (''
       @ py_str lib (carrier_code d) @ lit '')''
     @ (if stops d = 0 then lit '' '' @ [0x2022] @ lit '' Non-stop\<newline>''
        else lit '' '' @ [0x2022] @ lit '' '' @ dec_int (stops d) @ lit '' stop(s)\<newline>'')
     @ lit ''   '' @ [0x1F550] @ lit '' Departs '' @ departure_time d @ lit '' '' @ [0x2022]
       @ lit '' '' @ duration d @ lit ''\<newline>''
     @ lit ''   '' @ [0x1F4BA] @ lit '' '' @ py_str lib (cabin_class d) @ lit ''\<newline>\<newline>''"

text \<open>
  The loop \<open>for i, deal in enumerate(deals[:15], 1)\<close>; \<open>strptime\<close> raises on a date that
  is not of the form year-month-day.
\<close>

fun render_deals :: "config \<Rightarrow> pylib \<Rightarrow> nat \<Rightarrow> deal list \<Rightarrow> pystr \<Rightarrow> error + pystr" where
  "render_deals cfg lib i [] message = Inr message"
| "render_deals cfg lib i (d # rest) message =
     (case strftime_date lib (date d) of
        None \<Rightarrow> Inl ValueError
      | Some formatted_date \<Rightarrow>
          render_deals cfg lib (Suc i) rest (message @ deal_entry cfg lib i formatted_date d))"

definition more_deals_note :: "deal list \<Rightarrow> pystr" where
  "more_deals_note deals =
     (if length deals > 15
      then lit ''\<newline>_...and '' @ dec_nat (length deals - 15)
             @ lit '' more deals available!_\<newline>''
      else [])"

text \<open>
  The loop that fills the dict \<open>airline_counts\<close>. A dict keeps its keys in the order of
  their first insertion, so it is an association list here; a list or a dict is no key.
  \<open>bump\<close> is the assignment \<open>airline_counts[airline] = airline_counts.get(airline, 0) + 1\<close>.
\<close>

definition hashable :: "json \<Rightarrow> bool" where
  "hashable v = (case v of JList _ \<Rightarrow> False | JDict _ \<Rightarrow> False | _ \<Rightarrow> True)"

definition bump :: "(json \<times> nat) list \<Rightarrow> json \<Rightarrow> (json \<times> nat) list" where
  "bump airline_counts a =
     AList.update a ((case map_of airline_counts a of Some c \<Rightarrow> c | None \<Rightarrow> 0) + 1) airline_counts"

fun count_airlines :: "deal list \<Rightarrow> (json \<times> nat) list \<Rightarrow> error + (json \<times> nat) list" where
  "count_airlines [] airline_counts = Inr airline_counts"
| "count_airlines (d # rest) airline_counts =
     (if hashable (airline d)
      then count_airlines rest (bump airline_counts (airline d))
      else Inl TypeError)"

text \<open>\<open>max(items, key=...)\<close> keeps the first of the items with the greatest key.\<close>

fun max_by_count :: "(json \<times> nat) \<Rightarrow> (json \<times> nat) list \<Rightarrow> (json \<times> nat)" where
  "max_by_count best [] = best"
| "max_by_count best (x # xs) = max_by_count (if snd best < snd x then x else best) xs"

definition nonstop_count :: "deal list \<Rightarrow> nat" where
  "nonstop_count deals = length (filter (\<lambda>d. stops d = 0) deals)"

text \<open>
  The statistics of the sorted list, line by line: the rule and the title with the
  cheapest deal and the truncated mean of the prices, the airline with the most deals,
  the number of non-stop deals, and the footer with the time of the run.
\<close>

definition statistics_head :: "pylib \<Rightarrow> deal \<Rightarrow> rat \<Rightarrow> pystr" where
  "statistics_head lib best avg =
     lit ''\<newline>'' @ rule_line @ lit ''\<newline>''
     @ lit ''*'' @ [0x1F4CA] @ lit '' STATISTICS:*\<newline>\<newline>''
     @ [0x1F3C6] @ lit '' Cheapest: '' @ [0x20B9] @ dec_int (price best) @ lit '' (''
       @ py_str lib (airline best) @ lit '')\<newline>''
     @ [0x1F4CA] @ lit '' Average: '' @ [0x20B9] @ dec_int (trunc avg) @ lit ''\<newline>''"

definition most_deals_line :: "pylib \<Rightarrow> json \<times> nat \<Rightarrow> pystr" where
  "most_deals_line lib best_airline =
     [0x2708, 0xFE0F] @ lit '' Most deals: '' @ py_str lib (fst best_airline)
     @ lit '' ('' @ dec_nat (snd best_airline) @ lit '' flights)\<newline>''"

definition nonstop_line :: "nat \<Rightarrow> pystr" where
  "nonstop_line nonstop =
     [0x1F680] @ lit '' Non-stop flights: '' @ dec_nat nonstop @ lit ''\<newline>''"

definition report_footer :: "pystr \<Rightarrow> pystr" where
  "report_footer now =
     lit ''\<newline>'' @ [0x1F550] @ lit '' Checked: '' @ now @ lit ''\<newline>''
     @ [0x1F310] @ lit '' Source: Amadeus (400+ airlines)\<newline>''
     @ [0x1F4A1] @ lit '' Run again anytime to refresh prices''"

text \<open>
  The statistics part of \<open>format_results_message\<close>: \<open>deals[0]\<close>, the mean, the loop over
  the airlines, and the lines in the order of the source. The line with the non-stop
  count stands under \<open>if nonstop > 0\<close>.
\<close>

definition statistics :: "pylib \<Rightarrow> pystr \<Rightarrow> deal list \<Rightarrow> error + pystr" where
  "statistics lib now deals =
     bind (py_index deals 0) (\<lambda>best.
     let avg = of_int (sum_list (map price deals)) / of_int (int (length deals)) in
     bind (count_airlines deals []) (\<lambda>airline_counts.
     let nonstop = nonstop_count deals in
     Inr (statistics_head lib best avg
          @ (case airline_counts of
               [] \<Rightarrow> []
             | x # xs \<Rightarrow> most_deals_line lib (max_by_count x xs))
          @ (if nonstop > 0 then nonstop_line nonstop else [])
          @ report_footer now)))"

subsection \<open>\<open>format_results_message\<close>\<close>

text \<open>
  The argument is a Python list, and \<open>deals.sort\<close> sorts it in place (a stable sort on
  the price). The function therefore returns two things: the message or the exception,
  and the list as the caller finds it afterwards. \<open>now\<close> is the formatted time of the
  call.
\<close>

definition format_results_message ::
  "config \<Rightarrow> pylib \<Rightarrow> pystr \<Rightarrow> deal list \<Rightarrow> (error + pystr) \<times> deal list" where
  "format_results_message cfg lib now deals =
     (if deals = [] then (Inr (no_deals_message cfg), deals)
      else
        (let deals = sort_key price deals in
         (bind (render_deals cfg lib 1 (take 15 deals) (report_header cfg deals)) (\<lambda>message.
          bind (statistics lib now deals) (\<lambda>stats.
          Inr (message @ more_deals_note deals @ stats))),
          deals)))"

section \<open>Telegram delivery\<close>

text \<open>
  What one \<open>requests.post\<close> comes to: a response with a status code, or an exception.
  The network is a function of the number of the call and its text.
\<close>

datatype http_outcome = Response nat | Raised

type_synonym network = "nat \<Rightarrow> pystr \<Rightarrow> http_outcome"

definition send_telegram_message :: "network \<Rightarrow> nat \<Rightarrow> pystr \<Rightarrow> bool" where
  "send_telegram_message net k message =
     (case net k message of Response status_code \<Rightarrow> status_code = 200 | Raised \<Rightarrow> False)"

text \<open>The loop that splits a long message at its line breaks.\<close>

definition max_length :: nat where
  "max_length = 4000"

fun split_loop :: "pystr list \<Rightarrow> pystr list \<Rightarrow> pystr \<Rightarrow> pystr list \<times> pystr" where
  "split_loop [] parts current_part = (parts, current_part)"
| "split_loop (line # lines) parts current_part =
     (if length current_part + length line + 1 > max_length
      then split_loop lines (parts @ [current_part]) (line @ [10])
      else split_loop lines parts (current_part @ line @ [10]))"

definition message_parts :: "pystr \<Rightarrow> pystr list" where
  "message_parts message =
     (let (parts, current_part) = split_loop (py_split 10 message) [] []
      in if current_part \<noteq> [] then parts @ [current_part] else parts)"

text \<open>
  A part that consists of whole lines and respects the budget: it is not empty, it ends
  with a line break, and it has at most \<open>max_length\<close> characters.
\<close>

definition whole_lines :: "pystr \<Rightarrow> bool" where
  "whole_lines p \<longleftrightarrow> p \<noteq> [] \<and> last p = 10 \<and> length p \<le> max_length"

text \<open>
  The loop that sends the parts. The source drops what \<open>send_telegram_message\<close> returns;
  the model keeps these results as the trace of the calls.
\<close>

fun send_parts :: "network \<Rightarrow> nat \<Rightarrow> pystr list \<Rightarrow> bool list" where
  "send_parts net k [] = []"
| "send_parts net k (part # rest) = send_telegram_message net k part # send_parts net (Suc k) rest"

text \<open>
  \<open>send_long_message\<close>: the value it returns, and the result of every delivery call it
  made, in order.
\<close>

definition send_long_message :: "network \<Rightarrow> pystr \<Rightarrow> bool \<times> bool list" where
  "send_long_message net message =
     (if length message \<le> max_length
      then (let r = send_telegram_message net 0 message in (r, [r]))
      else (let parts = message_parts message;
                trace = send_parts net 0 parts
            in (True, trace)))"

section \<open>Sample inputs\<close>

text \<open>
  The inputs at which the properties below are evaluated. \<open>sample_lib\<close> is an
  interpreter that knows the floats and the dates of these inputs and no Unicode digit or
  space beyond ASCII.
\<close>

definition sample_lib :: pylib where
  "sample_lib =
     \<lparr>float_of_str = map_of [(lit ''2500.00'', Finite 2500), (lit ''7500.00'', Finite 7500)],
      unicode_space = (\<lambda>c. False),
      unicode_decimal = (\<lambda>c. None),
      strftime_date = map_of [(lit ''2026-02-01'', lit ''Feb 01, Sun'')],
      repr_of = (\<lambda>v. [])\<rparr>"

definition sample_cfg :: config where
  "sample_cfg =
     \<lparr>FROM_CITY = lit ''Hyderabad'', FROM_CODE = lit ''HYD'',
      TO_CITY = lit ''Varanasi'', TO_CODE = lit ''VNS'',
      DATE_RANGE_START = lit ''2026-02-01'', DATE_RANGE_END = lit ''2026-02-15'',
      PASSENGERS = 5, MAX_PRICE = 1000\<rparr>"

definition sample_offer :: "string \<Rightarrow> string \<Rightarrow> json" where
  "sample_offer total_text carrier =
     JDict [(lit ''price'', JDict [(lit ''total'', JStr (lit total_text))]),
            (lit ''itineraries'',
             JList [JDict [(lit ''duration'', JStr (lit ''PT3H25M'')),
                           (lit ''segments'',
                            JList [JDict [(lit ''carrierCode'', JStr (lit carrier)),
                                          (lit ''cabin'', JStr (lit ''ECONOMY'')),
                                          (lit ''departure'',
                                           JDict [(lit ''at'', JStr (lit ''2026-02-01T06:30:00''))]),
                                          (lit ''arrival'',
                                           JDict [(lit ''at'', JStr (lit ''2026-02-01T09:55:00''))])]])]])]"

definition sample_deal :: "int \<Rightarrow> string \<Rightarrow> string \<Rightarrow> int \<Rightarrow> deal" where
  "sample_deal p name carrier n =
     \<lparr>date = lit ''2026-02-01'', price = p, total_price = 5 * p,
      airline = JStr (lit name), carrier_code = JStr (lit carrier),
      duration = lit ''3h 25m'', stops = n, departure_time = lit ''06:30'',
      cabin_class = JStr (lit ''ECONOMY''), source = lit ''Amadeus''\<rparr>"

definition malformed_offer :: json where
  "malformed_offer = JDict [(lit ''price'', JNull)]"

definition sample_date :: pystr where
  "sample_date = lit ''2026-02-01''"

definition long_message :: pystr where
  "long_message = replicate 3000 97 @ 10 # replicate 3000 98"

definition long_line :: pystr where
  "long_line = replicate 4001 97"

definition failing_network :: network where
  "failing_network k message = Response 500"

definition sample_now :: pystr where
  "sample_now = lit ''06:30 PM, Nov 03, 2026''"

definition unsorted_deals :: "deal list" where
  "unsorted_deals =
     [sample_deal 700 ''IndiGo'' ''6E'' 0, sample_deal 500 ''Air India'' ''AI'' 1]"





section \<open>Properties\<close>

subsection \<open>Sequencing\<close>

lemma bind_Inr_iff: "bind m f = Inr y \<longleftrightarrow> (\<exists>x. m = Inr x \<and> f x = Inr y)"
  by (cases m) (simp_all add: bind_def)

lemma bind_Inl_iff: "bind m f = Inl e \<longleftrightarrow> m = Inl e \<or> (\<exists>x. m = Inr x \<and> f x = Inl e)"
  by (cases m) (simp_all add: bind_def)


subsection \<open>Airline Code Resolver\<close>

lemma airline_lookup_cases:
  "map_of airlines s = None \<or> (\<exists>name. map_of airlines s = Some name \<and> map_of airlines name = None)"
  by (simp add: airlines_def lit_def)

text \<open>
  C8. Every carrier code of the static table resolves to its display name, every other
  string resolves to itself, and resolving the result of a resolution changes nothing.
\<close>

theorem get_airline_name_resolves:
  "(\<forall>entry \<in> set airlines. get_airline_name (JStr (fst entry)) = Inr (JStr (snd entry)))
   \<and> (\<forall>s. s \<notin> fst ` set airlines \<longrightarrow> get_airline_name (JStr s) = Inr (JStr s))
   \<and> (\<forall>x y. get_airline_name x = Inr y \<longrightarrow> get_airline_name y = Inr y)"
proof (intro conjI allI impI ballI)
  fix entry assume "entry \<in> set airlines"
  then show "get_airline_name (JStr (fst entry)) = Inr (JStr (snd entry))"
    by (auto simp: airlines_def lit_def get_airline_name_def)
next
  fix s :: pystr assume "s \<notin> fst ` set airlines"
  then have "map_of airlines s = None"
    by (simp add: map_of_eq_None_iff)
  then show "get_airline_name (JStr s) = Inr (JStr s)"
    by (simp add: get_airline_name_def)
next
  fix x y assume h: "get_airline_name x = Inr y"
  show "get_airline_name y = Inr y"
  proof (cases x)
    case (JStr s)
    with airline_lookup_cases [of s] h show ?thesis
      by (auto simp: get_airline_name_def)
  qed (use h in \<open>auto simp: get_airline_name_def\<close>)
qed

theorem get_airline_name_resolves_witness:
  "get_airline_name (JStr (lit ''6E'')) = Inr (JStr (lit ''IndiGo''))
   \<and> get_airline_name (JStr (lit ''ZZ'')) = Inr (JStr (lit ''ZZ''))
   \<and> get_airline_name (JStr (lit ''IndiGo'')) = Inr (JStr (lit ''IndiGo''))"
proof -
  have a: "(lit ''6E'', lit ''IndiGo'') \<in> set airlines"
    by (simp add: airlines_def)
  have b: "lit ''ZZ'' \<notin> fst ` set airlines"
    by (simp add: airlines_def lit_def)
  from get_airline_name_resolves a b
  have "get_airline_name (JStr (lit ''6E'')) = Inr (JStr (lit ''IndiGo''))"
    and "get_airline_name (JStr (lit ''ZZ'')) = Inr (JStr (lit ''ZZ''))"
    by force+
  moreover from this(1) get_airline_name_resolves
  have "get_airline_name (JStr (lit ''IndiGo'')) = Inr (JStr (lit ''IndiGo''))"
    by blast
  ultimately show ?thesis by simp
qed

subsection \<open>Duration Parser\<close>














lemma py_split_absent: "sep \<notin> set xs \<Longrightarrow> py_split sep xs = [xs]"
  by (induction xs) auto

lemma py_split_at: "sep \<notin> set xs \<Longrightarrow> py_split sep (xs @ sep # ys) = xs # py_split sep ys"
  by (induction xs) auto

lemma py_split_not_Nil: "py_split sep s \<noteq> []"
  by (induction s) (auto split: list.splits)

lemma py_split_two: "sep \<in> set s \<Longrightarrow> \<exists>p0 p1 ps. py_split sep s = p0 # p1 # ps"
proof (induction s)
  case Nil
  then show ?case by simp
next
  case (Cons c cs)
  show ?case
  proof (cases "c = sep")
    case True
    then show ?thesis using py_split_not_Nil [of sep cs] by (cases "py_split sep cs") auto
  next
    case False
    with Cons obtain p0 p1 ps where "py_split sep cs = p0 # p1 # ps" by auto
    with False show ?thesis by simp
  qed
qed
















subsection \<open>Offer Normalizer\<close>

lemma trunc_le: "r \<le> of_int m \<Longrightarrow> trunc r \<le> m"
  by (auto simp: trunc_def ceiling_le_iff floor_le_iff)

lemma int_of_float_le: "float_le_int x m \<Longrightarrow> int_of_float x = Inr k \<Longrightarrow> k \<le> m"
  by (cases x) (auto simp: float_le_int_def int_of_float_def trunc_le)

lemma normalize_offer_price:
  assumes "normalize_offer cfg lib d offer = Inr (Some x)"
  shows "price x \<le> MAX_PRICE cfg"
proof -
  from assms obtain ppp k where "float_le_int ppp (MAX_PRICE cfg)" "int_of_float ppp = Inr k" "price x = k"
    unfolding normalize_offer_def
    by (auto simp: bind_Inr_iff split: if_splits)
  then show ?thesis using int_of_float_le by simp
qed

lemma offers_loop_prices:
  "offers_loop cfg lib d offers acc = (deals, r) \<Longrightarrow> \<forall>x \<in> set acc. price x \<le> MAX_PRICE cfg \<Longrightarrow>
   \<forall>x \<in> set deals. price x \<le> MAX_PRICE cfg"
proof (induction offers arbitrary: acc)
  case Nil
  then show ?case by simp
next
  case (Cons offer rest)
  show ?case
  proof (cases "normalize_offer cfg lib d offer")
    case (Inl e)
    with Cons.prems show ?thesis by simp
  next
    case (Inr res)
    show ?thesis
    proof (cases res)
      case None
      with Inr Cons show ?thesis by simp
    next
      case (Some x)
      with Inr have "price x \<le> MAX_PRICE cfg" using normalize_offer_price by blast
      with Cons.prems(2) have "\<forall>y \<in> set (acc @ [x]). price y \<le> MAX_PRICE cfg" by simp
      moreover from Cons.prems(1) Inr Some
      have "offers_loop cfg lib d rest (acc @ [x]) = (deals, r)" by simp
      ultimately show ?thesis using Cons.IH by blast
    qed
  qed
qed

lemma parse_amadeus_response_loop:
  "parse_amadeus_response cfg lib data d =
     Inr (case py_iter data of Inl e \<Rightarrow> [] | Inr offers \<Rightarrow> fst (offers_loop cfg lib d offers []))"
  by (auto simp: parse_amadeus_response_def split: sum.splits option.splits prod.splits)

lemma sample_offer_deal:
  "normalize_offer sample_cfg sample_lib sample_date (sample_offer ''2500.00'' ''6E'')
   = Inr (Some (sample_deal 500 ''IndiGo'' ''6E'' 0))"
  by code_simp

lemma sample_offer_bad:
  "normalize_offer sample_cfg sample_lib sample_date malformed_offer = Inl AttributeError"
  by code_simp

lemma sample_batch_one:
  "parse_amadeus_response sample_cfg sample_lib (JList [sample_offer ''2500.00'' ''6E'']) sample_date
   = Inr [sample_deal 500 ''IndiGo'' ''6E'' 0]"
  by code_simp

lemma offers_loop_raise:
  "normalize_offer cfg lib d bad = Inl e \<Longrightarrow>
   fst (offers_loop cfg lib d (before @ bad # rest) acc) = fst (offers_loop cfg lib d before acc)"
proof (induction before arbitrary: acc)
  case Nil
  then show ?case by simp
next
  case (Cons offer before)
  then show ?case by (simp split: sum.splits option.splits)
qed

lemma normalize_offer_no_passengers:
  assumes "PASSENGERS cfg = 0"
  shows "normalize_offer cfg lib d offer =
     (case bind (dict_get offer (lit ''price'') (JDict []))
             (\<lambda>p. bind (dict_get p (lit ''total'') (JStr (lit ''0''))) (py_float lib)) of
        Inl e \<Rightarrow> Inl e
      | Inr x \<Rightarrow> Inl ZeroDivisionError)"
  unfolding normalize_offer_def
  by (simp add: assms float_div_def bind_def split: sum.splits)

lemma offers_loop_all_raise:
  "(\<And>offer. \<exists>e. normalize_offer cfg lib d offer = Inl e) \<Longrightarrow>
   fst (offers_loop cfg lib d offers []) = []"
proof (cases offers)
  case Nil
  then show ?thesis by simp
next
  case (Cons offer rest)
  assume "\<And>offer. \<exists>e. normalize_offer cfg lib d offer = Inl e"
  then obtain e where "normalize_offer cfg lib d offer = Inl e" by blast
  with Cons show ?thesis by simp
qed

text \<open>
  C5. Every deal that \<open>parse_amadeus_response\<close> returns has a price per person of at
  most \<open>MAX_PRICE\<close>: the price is the truncation of the very quotient that passed the
  budget test. This needs no assumption on the sign of the total or on the number of
  passengers.
\<close>

theorem deal_price_within_budget:
  "parse_amadeus_response cfg lib data d = Inr deals \<Longrightarrow> \<forall>x \<in> set deals. price x \<le> MAX_PRICE cfg"
proof -
  assume a: "parse_amadeus_response cfg lib data d = Inr deals"
  show ?thesis
  proof (cases "py_iter data")
    case (Inl e)
    with a show ?thesis by (simp add: parse_amadeus_response_loop)
  next
    case (Inr offers)
    obtain ds r where l: "offers_loop cfg lib d offers [] = (ds, r)" by fastforce
    with a Inr have "deals = ds" by (simp add: parse_amadeus_response_loop)
    with l offers_loop_prices [of cfg lib d offers "[]" ds r] show ?thesis by simp
  qed
qed

theorem deal_price_within_budget_witness:
  "parse_amadeus_response sample_cfg sample_lib (JList [sample_offer ''2500.00'' ''6E'']) sample_date
     = Inr [sample_deal 500 ''IndiGo'' ''6E'' 0]
   \<and> price (sample_deal 500 ''IndiGo'' ''6E'' 0) \<le> MAX_PRICE sample_cfg"
proof -
  from deal_price_within_budget [OF sample_batch_one]
  have "price (sample_deal 500 ''IndiGo'' ''6E'' 0) \<le> MAX_PRICE sample_cfg" by simp
  with sample_batch_one show ?thesis by simp
qed

text \<open>
  C1, as the code has it. An exception raised while the fields of one offer are read is
  caught by the one handler around the whole loop: the function returns what the offers
  before that position gave, and the offers after it are not looked at.
\<close>

theorem exception_ends_batch:
  "normalize_offer cfg lib d bad = Inl e \<Longrightarrow>
   parse_amadeus_response cfg lib (JList (before @ bad # rest)) d
   = parse_amadeus_response cfg lib (JList before) d"
  by (simp add: parse_amadeus_response_loop py_iter_def offers_loop_raise)

theorem exception_ends_batch_witness:
  "parse_amadeus_response sample_cfg sample_lib
     (JList [sample_offer ''2500.00'' ''6E'', malformed_offer, sample_offer ''2500.00'' ''6E''])
     sample_date
   = Inr [sample_deal 500 ''IndiGo'' ''6E'' 0]"
  using exception_ends_batch [OF sample_offer_bad, of "[sample_offer ''2500.00'' ''6E'']"
      "[sample_offer ''2500.00'' ''6E'']"] sample_batch_one
  by simp

text \<open>
  An offer whose price is \<open>null\<close> raises, and the qualifying offer behind it is lost,
  although on its own it yields a deal.
\<close>

theorem later_offers_lost_counterexample:
  "normalize_offer sample_cfg sample_lib sample_date malformed_offer = Inl AttributeError
   \<and> parse_amadeus_response sample_cfg sample_lib
       (JList [malformed_offer, sample_offer ''2500.00'' ''6E'']) sample_date = Inr []
   \<and> parse_amadeus_response sample_cfg sample_lib
       (JList [sample_offer ''2500.00'' ''6E'']) sample_date
     = Inr [sample_deal 500 ''IndiGo'' ''6E'' 0]"
  by code_simp

text \<open>
  C10. \<open>parse_amadeus_response\<close> always returns a list. With no passengers configured
  every offer raises, an offer whose price can be read raises \<open>ZeroDivisionError\<close>, and
  the handler around the loop makes the result the empty list.
\<close>

theorem parse_amadeus_response_total:
  "(\<exists>deals. parse_amadeus_response cfg lib data d = Inr deals)
   \<and> (PASSENGERS cfg = 0 \<longrightarrow> parse_amadeus_response cfg lib data d = Inr [])
   \<and> (PASSENGERS cfg = 0 \<and>
        bind (dict_get offer (lit ''price'') (JDict []))
          (\<lambda>p. bind (dict_get p (lit ''total'') (JStr (lit ''0''))) (py_float lib)) = Inr x
      \<longrightarrow> normalize_offer cfg lib d offer = Inl ZeroDivisionError)"
proof (intro conjI impI)
  show "\<exists>deals. parse_amadeus_response cfg lib data d = Inr deals"
    by (simp add: parse_amadeus_response_loop)
next
  assume z: "PASSENGERS cfg = 0"
  have "\<And>offer. \<exists>e. normalize_offer cfg lib d offer = Inl e"
    by (simp add: normalize_offer_no_passengers [OF z] split: sum.splits)
  then have "\<And>offers. fst (offers_loop cfg lib d offers []) = []"
    by (rule offers_loop_all_raise)
  then show "parse_amadeus_response cfg lib data d = Inr []"
    by (simp add: parse_amadeus_response_loop split: sum.splits)
next
  assume "PASSENGERS cfg = 0 \<and>
        bind (dict_get offer (lit ''price'') (JDict []))
          (\<lambda>p. bind (dict_get p (lit ''total'') (JStr (lit ''0''))) (py_float lib)) = Inr x"
  then show "normalize_offer cfg lib d offer = Inl ZeroDivisionError"
    by (simp add: normalize_offer_no_passengers)
qed

theorem parse_amadeus_response_total_witness:
  "parse_amadeus_response (sample_cfg\<lparr>PASSENGERS := 0\<rparr>) sample_lib
     (JList [sample_offer ''2500.00'' ''6E'', sample_offer ''2500.00'' ''6E'']) sample_date = Inr []
   \<and> normalize_offer (sample_cfg\<lparr>PASSENGERS := 0\<rparr>) sample_lib sample_date
       (sample_offer ''2500.00'' ''6E'') = Inl ZeroDivisionError"
proof -
  have z: "PASSENGERS (sample_cfg\<lparr>PASSENGERS := 0\<rparr>) = 0" by simp
  have p: "bind (dict_get (sample_offer ''2500.00'' ''6E'') (lit ''price'') (JDict []))
          (\<lambda>p. bind (dict_get p (lit ''total'') (JStr (lit ''0''))) (py_float sample_lib))
        = Inr (Finite 2500)"
    by code_simp
  from parse_amadeus_response_total
    [of "sample_cfg\<lparr>PASSENGERS := 0\<rparr>" sample_lib
      "JList [sample_offer ''2500.00'' ''6E'', sample_offer ''2500.00'' ''6E'']" sample_date
      "sample_offer ''2500.00'' ''6E''" "Finite 2500"] z p
  show ?thesis by blast
qed

subsection \<open>Telegram delivery\<close>

lemma py_split_join: "concat (map (\<lambda>l. l @ [sep]) (py_split sep s)) = s @ [sep]"
proof (induction s)
  case Nil
  then show ?case by simp
next
  case (Cons c cs)
  then show ?case
    using py_split_not_Nil [of sep cs] by (cases "py_split sep cs") auto
qed

lemma split_loop_concat:
  "split_loop lines parts cur = (parts', cur') \<Longrightarrow>
   concat parts' @ cur' = concat parts @ cur @ concat (map (\<lambda>l. l @ [10]) lines)"
proof (induction lines arbitrary: parts cur)
  case Nil
  then show ?case by simp
next
  case (Cons line lines)
  then show ?case by (auto split: if_splits)
qed

lemma split_loop_bounded:
  "split_loop lines parts cur = (parts', cur') \<Longrightarrow>
   \<forall>line \<in> set lines. length line < max_length \<Longrightarrow>
   \<forall>p \<in> set parts. whole_lines p \<Longrightarrow>
   cur = [] \<or> whole_lines cur \<Longrightarrow>
   (\<forall>p \<in> set parts'. whole_lines p) \<and> (cur' = [] \<or> whole_lines cur')"
proof (induction lines arbitrary: parts cur)
  case Nil
  then show ?case by simp
next
  case (Cons line lines)
  have short: "length line < max_length" using Cons.prems(2) by simp
  have rest: "\<forall>l \<in> set lines. length l < max_length" using Cons.prems(2) by simp
  show ?case
  proof (cases "length cur + length line + 1 > max_length")
    case True
    then have "cur \<noteq> []" using short by auto
    then have "whole_lines cur" using Cons.prems(4) by simp
    then have a: "\<forall>p \<in> set (parts @ [cur]). whole_lines p" using Cons.prems(3) by simp
    have b: "line @ [10] = [] \<or> whole_lines (line @ [10])"
      using short by (simp add: whole_lines_def)
    from Cons.prems(1) True have "split_loop lines (parts @ [cur]) (line @ [10]) = (parts', cur')"
      by simp
    from Cons.IH [OF this rest a b] show ?thesis .
  next
    case False
    then have b: "cur @ line @ [10] = [] \<or> whole_lines (cur @ line @ [10])"
      by (simp add: whole_lines_def)
    from Cons.prems(1) False have "split_loop lines parts (cur @ line @ [10]) = (parts', cur')"
      by simp
    from Cons.IH [OF this rest Cons.prems(3) b] show ?thesis .
  qed
qed

lemma long_message_lines: "py_split 10 long_message = [replicate 3000 97, replicate 3000 98]"
  unfolding long_message_def
  by (simp add: py_split_at py_split_absent)

lemma long_message_parts:
  "message_parts long_message = [replicate 3000 97 @ [10], replicate 3000 98 @ [10]]"
  by (simp add: message_parts_def long_message_lines max_length_def)

lemma send_long_message_long:
  "max_length < length message \<Longrightarrow> fst (send_long_message net message) = True"
  by (simp add: send_long_message_def)

lemma send_long_message_short:
  "length message \<le> max_length \<Longrightarrow>
   fst (send_long_message net message) \<longleftrightarrow> net 0 message = Response 200"
  by (auto simp: send_long_message_def send_telegram_message_def Let_def split: http_outcome.splits)

text \<open>
  C3, as the code has it. A message is cut at line breaks only, so a part can respect
  the budget only if no single line is too long. For a message of more than 4000
  characters whose lines have fewer than 4000 characters each: every part is a non-empty
  run of whole lines (it ends with the line break of its last line), no part has more
  than 4000 characters, and the parts put together are the message followed by one
  line break.
\<close>

theorem message_parts_whole_lines:
  assumes "max_length < length message"
    and "\<forall>line \<in> set (py_split 10 message). length line < max_length"
  shows "(\<forall>p \<in> set (message_parts message). p \<noteq> [] \<and> last p = 10 \<and> length p \<le> max_length)
         \<and> concat (message_parts message) = message @ [10]"
proof -
  obtain parts cur where l: "split_loop (py_split 10 message) [] [] = (parts, cur)"
    by fastforce
  have mp: "message_parts message = (if cur \<noteq> [] then parts @ [cur] else parts)"
    by (simp add: message_parts_def l)
  from split_loop_bounded [OF l assms(2)]
  have "(\<forall>p \<in> set parts. whole_lines p) \<and> (cur = [] \<or> whole_lines cur)" by simp
  then have "\<forall>p \<in> set (message_parts message). whole_lines p"
    by (auto simp: mp)
  moreover from split_loop_concat [OF l] have "concat (message_parts message) = message @ [10]"
    by (auto simp: mp py_split_join)
  ultimately show ?thesis by (simp add: whole_lines_def)
qed

theorem message_parts_whole_lines_witness:
  "max_length < length long_message
   \<and> message_parts long_message = [replicate 3000 97 @ [10], replicate 3000 98 @ [10]]
   \<and> concat (message_parts long_message) = long_message @ [10]"
proof -
  have a: "max_length < length long_message"
    by (simp add: long_message_def max_length_def)
  have b: "\<forall>line \<in> set (py_split 10 long_message). length line < max_length"
    by (simp add: long_message_lines max_length_def)
  from message_parts_whole_lines [OF a b] a long_message_parts show ?thesis by simp
qed

text \<open>
  A message that is one line of 4001 characters: the loop first puts the empty text
  aside as a part, and the second part has 4002 characters.
\<close>

theorem long_line_counterexample:
  "max_length < length long_line
   \<and> message_parts long_line = [[], long_line @ [10]]
   \<and> length (long_line @ [10]) = 4002"
  by (simp add: message_parts_def long_line_def py_split_absent max_length_def)

text \<open>
  C2. For a message of more than 4000 characters \<open>send_long_message\<close> returns \<open>True\<close>
  whatever the delivery calls returned: here both parts are answered with status 500.
\<close>

theorem send_long_message_drops_failures:
  "max_length < length long_message
   \<and> send_long_message failing_network long_message = (True, [False, False])"
  by (simp add: send_long_message_def long_message_parts send_telegram_message_def
      failing_network_def)
    (simp add: long_message_def max_length_def)

subsection \<open>From the normalizer to the report\<close>

text \<open>
  The deals that \<open>parse_amadeus_response\<close> returns carry the date they were searched
  for, and their airline is a string or \<open>None\<close>. When that date is one \<open>strptime\<close>
  accepts, as the dates of the configured range are, these deals satisfy what the
  properties of the report below assume.
\<close>

lemma get_airline_name_hashable: "get_airline_name v = Inr a \<Longrightarrow> hashable a"
  by (cases v) (auto simp: get_airline_name_def hashable_def split: option.splits)

lemma normalize_offer_deal:
  assumes "normalize_offer cfg lib d offer = Inr (Some x)"
  shows "date x = d \<and> hashable (airline x)"
proof -
  from assms obtain carrier a where "get_airline_name carrier = Inr a" "airline x = a" "date x = d"
    unfolding normalize_offer_def
    by (auto simp: bind_Inr_iff split: if_splits)
  then show ?thesis using get_airline_name_hashable by blast
qed

lemma offers_loop_renderable:
  "offers_loop cfg lib d offers acc = (deals, r) \<Longrightarrow>
   \<forall>x \<in> set acc. date x = d \<and> hashable (airline x) \<Longrightarrow>
   \<forall>x \<in> set deals. date x = d \<and> hashable (airline x)"
proof (induction offers arbitrary: acc)
  case Nil
  then show ?case by simp
next
  case (Cons offer rest)
  show ?case
  proof (cases "normalize_offer cfg lib d offer")
    case (Inl e)
    with Cons.prems show ?thesis by simp
  next
    case (Inr res)
    show ?thesis
    proof (cases res)
      case None
      with Inr Cons show ?thesis by simp
    next
      case (Some x)
      with Inr have "date x = d \<and> hashable (airline x)" using normalize_offer_deal by blast
      with Cons.prems(2) have "\<forall>y \<in> set (acc @ [x]). date y = d \<and> hashable (airline y)" by simp
      moreover from Cons.prems(1) Inr Some
      have "offers_loop cfg lib d rest (acc @ [x]) = (deals, r)" by simp
      ultimately show ?thesis using Cons.IH by blast
    qed
  qed
qed

lemma parsed_deals_renderable:
  assumes "parse_amadeus_response cfg lib data d = Inr deals" and "strftime_date lib d \<noteq> None"
  shows "\<forall>x \<in> set deals. strftime_date lib (date x) \<noteq> None \<and> hashable (airline x)"
proof (cases "py_iter data")
  case (Inl e)
  with assms(1) show ?thesis by (simp add: parse_amadeus_response_loop)
next
  case (Inr offers)
  obtain ds r where l: "offers_loop cfg lib d offers [] = (ds, r)" by fastforce
  with assms(1) Inr have "deals = ds" by (simp add: parse_amadeus_response_loop)
  with l offers_loop_renderable [of cfg lib d offers "[]" ds r] assms(2) show ?thesis by simp
qed

subsection \<open>Ranking and Reporting\<close>

















lemma format_nonempty:
  "deals \<noteq> [] \<Longrightarrow>
   format_results_message cfg lib now deals =
     (bind (render_deals cfg lib 1 (take 15 (sort_key price deals))
              (report_header cfg (sort_key price deals)))
        (\<lambda>message. bind (statistics lib now (sort_key price deals))
           (\<lambda>stats. Inr (message @ more_deals_note (sort_key price deals) @ stats))),
      sort_key price deals)"
  by (simp add: format_results_message_def Let_def)








text \<open>
  C9. For a non-empty list \<open>format_results_message\<close> sorts the list of its caller: after
  the call the list is the stable sort of the deals by price, so it is in ascending
  order of price and holds the same deals as before.
\<close>

theorem format_results_message_sorts_in_place:
  "deals \<noteq> [] \<Longrightarrow>
   snd (format_results_message cfg lib now deals) = sort_key price deals
   \<and> sorted (map price (snd (format_results_message cfg lib now deals)))
   \<and> mset (snd (format_results_message cfg lib now deals)) = mset deals"
  by (simp add: format_nonempty)

theorem format_results_message_sorts_in_place_witness:
  "snd (format_results_message sample_cfg sample_lib sample_now unsorted_deals)
     = [sample_deal 500 ''Air India'' ''AI'' 1, sample_deal 700 ''IndiGo'' ''6E'' 0]
   \<and> snd (format_results_message sample_cfg sample_lib sample_now unsorted_deals) \<noteq> unsorted_deals"
proof -
  have n: "unsorted_deals \<noteq> []" by (simp add: unsorted_deals_def)
  have s: "sort_key price unsorted_deals
           = [sample_deal 500 ''Air India'' ''AI'' 1, sample_deal 700 ''IndiGo'' ''6E'' 0]"
    by (simp add: unsorted_deals_def sample_deal_def)
  from format_results_message_sorts_in_place [OF n, of sample_cfg sample_lib sample_now]
  have "snd (format_results_message sample_cfg sample_lib sample_now unsorted_deals)
        = [sample_deal 500 ''Air India'' ''AI'' 1, sample_deal 700 ''IndiGo'' ''6E'' 0]"
    by (simp add: s)
  then show ?thesis by (simp add: unsorted_deals_def sample_deal_def)
qed












end
